theory Spec2Isabelle
  imports Complex_Main
begin

section \<open>Sampling-rate exercise (samplingCalculator)\<close>

text \<open>
  JavaScript numbers are modelled as mathematical reals: rounding, NaN and the
  infinities are outside the model. Where the source would produce one of them
  (a division by zero), the model says so explicitly instead of using HOL's
  \<open>x / 0 = 0\<close>.
\<close>

subsection \<open>SIGNAL_CONFIG\<close>

record signal_config =
  f1 :: real
  f2 :: real
  f3 :: real
  fMax :: real
  nyquistRate :: real
  dc :: real

definition SIGNAL_CONFIG :: signal_config where
  "SIGNAL_CONFIG = \<lparr> f1 = 50, f2 = 100, f3 = 250, fMax = 250, nyquistRate = 500, dc = 7 \<rparr>"

subsection \<open>originalSignal, sampleSignal\<close>

definition originalSignal :: "real \<Rightarrow> real" where
  "originalSignal t =
     cos (2 * pi * f1 SIGNAL_CONFIG * t) +
     sin (2 * pi * f2 SIGNAL_CONFIG * t) +
     cos (2 * pi * f3 SIGNAL_CONFIG * t + pi / 4) +
     dc SIGNAL_CONFIG"

definition sampleSignal :: "real list \<Rightarrow> real list" where
  "sampleSignal timePoints = map (\<lambda>t. originalSignal t) timePoints"

subsection \<open>sinc\<close>

definition sinc :: "real \<Rightarrow> real" where
  "sinc x = (if \<bar>x\<bar> < 1 / 10 ^ 10 then 1 else sin (pi * x) / (pi * x))"

subsection \<open>generateSampleTimePoints\<close>

text \<open>
  The source contains no \<open>throw\<close>; the error type exists only so that the
  outcome "fails with an invalid-rate error" can be told apart from "returns a list".
  Every returning run of the source yields \<open>Inr\<close>.
\<close>

datatype error = InvalidRateError

text \<open>
  The \<open>while (t <= end + Ts / 2)\<close> loop. \<open>None\<close> is a run that never leaves
  the loop.
\<close>

partial_function (option) sampleLoop :: "real \<Rightarrow> real \<Rightarrow> real \<Rightarrow> real list \<Rightarrow> real list option" where
  "sampleLoop endT Ts t points =
     (if t \<le> endT + Ts / 2 then sampleLoop endT Ts (t + Ts) (points @ [t]) else Some points)"

text \<open>
  The source's parameter \<open>end\<close> is called \<open>endT\<close> here.
  For \<open>fs = 0\<close> the source computes \<open>Ts = 1 / 0 = Infinity\<close>; the loop test
  \<open>t <= Infinity\<close> then holds forever, so the call does not return.
\<close>

definition generateSampleTimePoints :: "real \<Rightarrow> real \<Rightarrow> real \<Rightarrow> (error + real list) option" where
  "generateSampleTimePoints start endT fs =
     (if fs = 0 then None
      else map_option Inr (sampleLoop endT (1 / fs) start []))"

subsection \<open>getSamplingStatus\<close>

datatype sampling_status = Adequate | Nyquist | Insufficient

text \<open>
  The returned object; its \<open>message\<close> field is display text built from the
  printed numbers and is not modelled.
\<close>

record sampling_result =
  status :: sampling_status
  color :: string

definition getSamplingStatus :: "real \<Rightarrow> sampling_result" where
  "getSamplingStatus fs =
     (if fs > nyquistRate SIGNAL_CONFIG then \<lparr> status = Adequate, color = ''green'' \<rparr>
      else if \<bar>fs - nyquistRate SIGNAL_CONFIG\<bar> < 1 then \<lparr> status = Nyquist, color = ''orange'' \<rparr>
      else \<lparr> status = Insufficient, color = ''red'' \<rparr>)"

text \<open>
  The classification as the specification words it, with \<open>\<epsilon> = 1\<close>:
  insufficient below \<open>nyquistRate - \<epsilon>\<close>, at-Nyquist within \<open>\<epsilon>\<close> of the
  Nyquist rate, adequate otherwise.
\<close>

definition spec_classifySamplingRate :: "real \<Rightarrow> sampling_status" where
  "spec_classifySamplingRate fs =
     (if fs < 500 - 1 then Insufficient
      else if \<bar>fs - 500\<bar> < 1 then Nyquist
      else Adequate)"

section \<open>Entropy of a stochastic process (entropyCalculator)\<close>

text \<open>The source's field \<open>value\<close> is called \<open>val\<close> here.\<close>

record SignalPoint =
  index :: int
  val :: real

subsection \<open>discretizeSignal\<close>

text \<open>
  The only caller passes \<open>numBins = 20\<close>. For \<open>numBins = 0\<close> the source divides by
  \<open>binWidth = Infinity\<close> and every finite sample gets index 0; the model's
  \<open>x / 0 = 0\<close> gives the same index.
\<close>

definition discretizeSignal :: "SignalPoint list \<Rightarrow> nat \<Rightarrow> int list" where
  "discretizeSignal signal numBins =
     (let mn = - 2 :: real; mx = 2 :: real;
          binWidth = (mx - mn) / real numBins
      in map (\<lambda>point.
            let bin = \<lfloor>(val point - mn) / binWidth\<rfloor>
            in max 0 (min (int numBins - 1) bin)) signal)"

text \<open>
  The bin index as the specification words it, for a range \<open>[lo, hi]\<close>.
\<close>

definition spec_binIndex :: "real \<Rightarrow> real \<Rightarrow> nat \<Rightarrow> real \<Rightarrow> int" where
  "spec_binIndex lo hi numBins v =
     (let binWidth = (hi - lo) / real numBins;
          i = \<lfloor>(v - lo) / binWidth\<rfloor>
      in if i < 0 then 0 else if i > int numBins - 1 then int numBins - 1 else i)"

subsection \<open>calculateJointProbability\<close>

text \<open>
  \<open>counts[bin]++\<close> for each discretized sample, in order. A write outside the
  array would make JavaScript grow it and store NaN; such a run leaves the model
  (\<open>None\<close>).
\<close>

fun countBins :: "int list \<Rightarrow> nat list \<Rightarrow> nat list option" where
  "countBins [] counts = Some counts"
| "countBins (bin # bins) counts =
     (if 0 \<le> bin \<and> nat bin < length counts
      then countBins bins (counts[nat bin := counts ! nat bin + 1])
      else None)"

text \<open>
  \<open>count / total\<close> with \<open>total = 0\<close> is NaN or an infinity in the source;
  the model returns \<open>None\<close> there. The only caller passes a non-empty signal.
\<close>

definition calculateJointProbability :: "SignalPoint list \<Rightarrow> nat \<Rightarrow> real list option" where
  "calculateJointProbability signal numBins =
     (let discretized = discretizeSignal signal numBins
      in case countBins discretized (replicate numBins 0) of
           None \<Rightarrow> None
         | Some counts \<Rightarrow>
             (let total = length signal
              in if total = 0 then None
                 else Some (map (\<lambda>count. real count / real total) counts)))"

subsection \<open>calculateEntropy\<close>

text \<open>
  One derivation step. The prose fields (\<open>description\<close>,
  \<open>detailedExplanation\<close>) are display text and are not modelled.
\<close>

record derivation_step =
  step :: string
  stepValue :: real

record entropy_result =
  entropy :: real
  probabilities :: "real list"
  stepByStep :: "derivation_step list"

text \<open>The \<open>forEach\<close> that accumulates \<open>entropy += -p * log2(p)\<close> over bins with \<open>p > 0\<close>.\<close>

definition accumulateEntropy :: "real list \<Rightarrow> real" where
  "accumulateEntropy ps =
     foldl (\<lambda>e p. if p > 0 then e + (- p * log 2 p) else e) 0 ps"

definition calculateEntropy :: "SignalPoint list \<Rightarrow> entropy_result option" where
  "calculateEntropy signal =
     (if length signal = 0
      then Some \<lparr> entropy = 0, probabilities = [], stepByStep = [] \<rparr>
      else
        (let numBins = 20
         in case calculateJointProbability signal numBins of
              None \<Rightarrow> None
            | Some ps \<Rightarrow>
                (let e = accumulateEntropy ps
                 in Some \<lparr> entropy = max 0 e,
                           probabilities = ps,
                           stepByStep =
                             [\<lparr> step = ''1'', stepValue = real (length signal) \<rparr>,
                              \<lparr> step = ''2'', stepValue = real (length (filter (\<lambda>p. p > 0) ps)) \<rparr>,
                              \<lparr> step = ''3'', stepValue = e \<rparr>,
                              \<lparr> step = ''4'', stepValue = e \<rparr>] \<rparr>)))"

text \<open>The summand \<open>contribution\<close> of one bin: \<open>-p * log2(p)\<close> when \<open>p > 0\<close>, nothing otherwise.\<close>

definition binContribution :: "real \<Rightarrow> real" where
  "binContribution p = (if p > 0 then - p * log 2 p else 0)"

subsection \<open>Example inputs\<close>


text \<open>Three samples: one inside the range, one above it and one below it.\<close>

definition outOfRangeSignal :: "SignalPoint list" where
  "outOfRangeSignal =
     [\<lparr> index = 1, val = 0 \<rparr>, \<lparr> index = 2, val = 5 \<rparr>, \<lparr> index = 3, val = - 3 \<rparr>]"

section \<open>Properties of the sampling-rate exercise\<close>

subsection \<open>Auxiliary facts\<close>

text \<open>
  The cubic remainder of the sine series, and from it the distance between 1 and
  \<open>sin(\<pi>x) / (\<pi>x)\<close> on the guard interval of \<open>sinc\<close>.
\<close>

lemma sin_cubic_bound: "\<bar>sin y - y\<bar> \<le> \<bar>y\<bar> ^ 3 / 6" for y :: real
proof -
  have s: "(\<Sum>m<Suc (Suc (Suc 0)). sin_coeff m * y ^ m) = y"
    by (simp add: sin_coeff_def)
  have f: "fact (Suc (Suc (Suc 0))) = (6::real)" by simp
  have p: "\<bar>y\<bar> ^ Suc (Suc (Suc 0)) = \<bar>y\<bar> ^ 3" by (simp add: power3_eq_cube)
  from Maclaurin_sin_bound [of y "Suc (Suc (Suc 0))"]
  have "\<bar>sin y - y\<bar> \<le> inverse 6 * \<bar>y\<bar> ^ 3"
    unfolding s f p .
  then show ?thesis by simp
qed

lemma sinc_formula_near_one:
  fixes x :: real
  assumes "x \<noteq> 0" "\<bar>x\<bar> < 1 / 10 ^ 10"
  shows "\<bar>1 - sin (pi * x) / (pi * x)\<bar> \<le> 1 / 10 ^ 19"
proof -
  let ?y = "pi * x"
  have y0: "?y \<noteq> 0" using assms(1) by simp
  have ypos: "0 < \<bar>?y\<bar>" using y0 by simp
  have "\<bar>?y\<bar> = pi * \<bar>x\<bar>" by (simp add: abs_mult)
  also have "\<dots> \<le> 4 * \<bar>x\<bar>" using pi_less_4 by (simp add: mult_right_mono)
  also have "\<dots> < 4 / 10 ^ 10" using assms(2) by simp
  finally have ysmall: "\<bar>?y\<bar> < 4 / 10 ^ 10" .
  have "\<bar>1 - sin ?y / ?y\<bar> = \<bar>(?y - sin ?y) / ?y\<bar>"
    using y0 by (simp add: diff_divide_distrib)
  also have "\<dots> = \<bar>sin ?y - ?y\<bar> / \<bar>?y\<bar>"
    by (simp only: abs_divide abs_minus_commute)
  also have "\<dots> \<le> (\<bar>?y\<bar> ^ 3 / 6) / \<bar>?y\<bar>"
    using sin_cubic_bound [of ?y] ypos by (simp only: divide_right_mono abs_ge_zero)
  also have "\<dots> = \<bar>?y\<bar> ^ 2 / 6"
    using ypos by (simp add: power3_eq_cube power2_eq_square)
  also have "\<dots> \<le> (4 / 10 ^ 10) ^ 2 / 6"
    using ysmall by (intro divide_right_mono power_mono) simp_all
  also have "\<dots> \<le> 1 / 10 ^ 19" by (simp add: power2_eq_square)
  finally show ?thesis .
qed

lemma sampleLoop_stops: "\<not> t \<le> endT + Ts / 2 \<Longrightarrow> sampleLoop endT Ts t acc = Some acc"
  by (subst sampleLoop.simps) simp

text \<open>
  With a positive period the loop is left after finitely many rounds: the number of
  periods that still fit below \<open>end + Ts / 2\<close> drops by one each round.
\<close>

lemma sampleLoop_terminates:
  assumes "Ts > 0"
  shows "\<exists>pts. sampleLoop endT Ts t acc = Some pts"
proof (induction "nat \<lceil>(endT + Ts / 2 - t) / Ts + 1\<rceil>" arbitrary: t acc rule: less_induct)
  case less
  show ?case
  proof (cases "t \<le> endT + Ts / 2")
    case False
    then show ?thesis by (simp add: sampleLoop_stops)
  next
    case True
    have eq: "(endT + Ts / 2 - (t + Ts)) / Ts + 1 = (endT + Ts / 2 - t) / Ts + 1 - 1"
      using assms by (simp add: field_simps)
    have nn: "0 \<le> (endT + Ts / 2 - t) / Ts" using True assms by simp
    have "nat \<lceil>(endT + Ts / 2 - (t + Ts)) / Ts + 1\<rceil> < nat \<lceil>(endT + Ts / 2 - t) / Ts + 1\<rceil>"
      unfolding eq using nn by linarith
    from less [OF this] obtain pts where "sampleLoop endT Ts (t + Ts) (acc @ [t]) = Some pts"
      by blast
    then show ?thesis using True by (subst sampleLoop.simps) simp
  qed
qed

subsection \<open>generateSampleTimePoints\<close>

text \<open>
  C1, as the code behaves: no call ends in an invalid-rate error. For every \<open>fs > 0\<close>
  the call returns a list of time points. For \<open>fs < 0\<close> with
  \<open>start > end + (1 / fs) / 2\<close> the loop body never runs and the call returns the
  empty list. (The remaining calls with \<open>fs \<le> 0\<close> are not described here.)
\<close>

theorem generateSampleTimePoints_never_fails:
  "generateSampleTimePoints start endT fs \<noteq> Some (Inl e) \<and>
   (0 < fs \<longrightarrow> (\<exists>pts. generateSampleTimePoints start endT fs = Some (Inr pts))) \<and>
   (fs < 0 \<and> endT + (1 / fs) / 2 < start \<longrightarrow>
      generateSampleTimePoints start endT fs = Some (Inr []))"
proof (intro conjI impI)
  show "generateSampleTimePoints start endT fs \<noteq> Some (Inl e)"
    by (auto simp: generateSampleTimePoints_def)
next
  assume pos: "0 < fs"
  then have "0 < 1 / fs" by simp
  from sampleLoop_terminates [OF this, of endT start "[]"]
  obtain pts where "sampleLoop endT (1 / fs) start [] = Some pts" by blast
  with pos show "\<exists>pts. generateSampleTimePoints start endT fs = Some (Inr pts)"
    by (simp add: generateSampleTimePoints_def)
next
  assume neg: "fs < 0 \<and> endT + (1 / fs) / 2 < start"
  then have "\<not> start \<le> endT + (1 / fs) / 2" by simp
  from sampleLoop_stops [OF this, of "[]"] neg
  show "generateSampleTimePoints start endT fs = Some (Inr [])"
    by (simp add: generateSampleTimePoints_def)
qed

text \<open>
  C1, instances: the rate 1000 over \<open>[0, 0.01]\<close> returns a list, and the rate
  \<open>-5\<close> over the same interval returns the empty list.
\<close>

theorem generateSampleTimePoints_never_fails_witness:
  "(0::real) < 1000 \<and> (\<exists>pts. generateSampleTimePoints 0 (1 / 100) 1000 = Some (Inr pts)) \<and>
   (- 5 :: real) < 0 \<and> (1 / 100 + (1 / (- 5)) / 2 < (0::real)) \<and>
   generateSampleTimePoints 0 (1 / 100) (- 5) = Some (Inr [])"
  using generateSampleTimePoints_never_fails [of 0 "1 / 100" 1000]
        generateSampleTimePoints_never_fails [of 0 "1 / 100" "- 5"]
  by simp

text \<open>
  C1 as stated fails: \<open>sample(0, 0.01, -5)\<close> computes \<open>Ts = -0.2\<close>, the test
  \<open>0 <= 0.01 - 0.1\<close> is false at once, and the empty list is returned; there is no
  invalid-rate error.
\<close>

theorem sample_negative_rate_counterexample:
  "generateSampleTimePoints 0 (1 / 100) (- 5) = Some (Inr []) \<and>
   generateSampleTimePoints 0 (1 / 100) (- 5) \<noteq> Some (Inl InvalidRateError)"
proof -
  have "sampleLoop (1 / 100) (1 / (- 5)) 0 [] = Some []"
    by (subst sampleLoop.simps) simp
  then show ?thesis by (simp add: generateSampleTimePoints_def)
qed

subsection \<open>getSamplingStatus\<close>

text \<open>
  C2, as the code behaves: the status is adequate for \<open>fs > 500\<close>, at-Nyquist for
  \<open>499 < fs \<le> 500\<close> and insufficient for \<open>fs \<le> 499\<close>. The function is a total
  function of the rate with no error outcome.
\<close>

theorem getSamplingStatus_classes:
  "status (getSamplingStatus fs) =
     (if fs > 500 then Adequate else if 499 < fs then Nyquist else Insufficient)"
  by (simp add: getSamplingStatus_def SIGNAL_CONFIG_def abs_if)

text \<open>
  C2 as stated fails at \<open>fs = 500.5\<close>: the code tests \<open>fs > nyquistRate\<close> first and
  answers adequate, while the stated rule answers at-Nyquist since
  \<open>|500.5 - 500| < 1\<close>.
\<close>

theorem classify_above_nyquist_counterexample:
  "status (getSamplingStatus (1001 / 2)) = Adequate \<and>
   spec_classifySamplingRate (1001 / 2) = Nyquist"
  by (simp add: getSamplingStatus_def SIGNAL_CONFIG_def spec_classifySamplingRate_def)

text \<open>
  C6: the rate 500 is classified at-Nyquist, 600 adequate and 300 insufficient.
\<close>

theorem getSamplingStatus_examples:
  "status (getSamplingStatus 500) = Nyquist \<and>
   status (getSamplingStatus 600) = Adequate \<and>
   status (getSamplingStatus 300) = Insufficient"
  by (simp add: getSamplingStatus_def SIGNAL_CONFIG_def)

subsection \<open>sinc\<close>

text \<open>
  C8: \<open>sinc(0) = 1\<close> exactly; \<open>sinc(n) = 0\<close> for every nonzero integer \<open>n\<close>;
  and at every other point \<open>sinc(x)\<close> equals \<open>sin(\<pi>x) / (\<pi>x)\<close>: exactly for
  \<open>|x| \<ge> 1e-10\<close>, and within \<open>1e-19\<close>, far below the resolution of a double
  near 1, on the guard interval \<open>0 < |x| < 1e-10\<close> where the code returns 1.
\<close>

theorem sinc_values:
  "sinc 0 = 1 \<and>
   (\<forall>n::int. n \<noteq> 0 \<longrightarrow> sinc (real_of_int n) = 0) \<and>
   (\<forall>x. x \<noteq> 0 \<longrightarrow> \<bar>sinc x - sin (pi * x) / (pi * x)\<bar> \<le> 1 / 10 ^ 19) \<and>
   (\<forall>x. \<not> \<bar>x\<bar> < 1 / 10 ^ 10 \<longrightarrow> sinc x = sin (pi * x) / (pi * x))"
proof (intro conjI allI impI)
  show "sinc 0 = 1" by (simp add: sinc_def)
next
  fix n :: int assume "n \<noteq> 0"
  then have "1 \<le> \<bar>real_of_int n\<bar>" by linarith
  then have "\<not> \<bar>real_of_int n\<bar> < 1 / 10 ^ 10" by simp
  then show "sinc (real_of_int n) = 0" by (simp add: sinc_def sin_npi_int)
next
  fix x :: real assume nz: "x \<noteq> 0"
  show "\<bar>sinc x - sin (pi * x) / (pi * x)\<bar> \<le> 1 / 10 ^ 19"
  proof (cases "\<bar>x\<bar> < 1 / 10 ^ 10")
    case True
    with sinc_formula_near_one [OF nz True] show ?thesis by (simp add: sinc_def)
  next
    case False
    then show ?thesis by (simp add: sinc_def)
  qed
next
  fix x :: real assume "\<not> \<bar>x\<bar> < 1 / 10 ^ 10"
  then show "sinc x = sin (pi * x) / (pi * x)" by (simp add: sinc_def)
qed

text \<open>
  C8, instances: the integer 3, the point \<open>1e-11\<close> inside the guard interval and the
  point \<open>1/2\<close> outside it.
\<close>

theorem sinc_values_witness:
  "sinc 0 = 1 \<and>
   (3::int) \<noteq> 0 \<and> sinc (real_of_int 3) = 0 \<and>
   (1 / 10 ^ 11 :: real) \<noteq> 0 \<and>
   \<bar>sinc (1 / 10 ^ 11) - sin (pi * (1 / 10 ^ 11)) / (pi * (1 / 10 ^ 11))\<bar> \<le> 1 / 10 ^ 19 \<and>
   \<not> \<bar>1 / 2 :: real\<bar> < 1 / 10 ^ 10 \<and> sinc (1 / 2) = sin (pi * (1 / 2)) / (pi * (1 / 2))"
proof -
  note t = sinc_values
  have a: "sinc 0 = 1" using t by blast
  have b3: "(3::int) \<noteq> 0" by simp
  have b: "sinc (real_of_int 3) = 0" using t b3 by blast
  have c0: "(1 / 10 ^ 11 :: real) \<noteq> 0" by simp
  have c: "\<bar>sinc (1 / 10 ^ 11) - sin (pi * (1 / 10 ^ 11)) / (pi * (1 / 10 ^ 11))\<bar> \<le> 1 / 10 ^ 19"
    using t c0 by blast
  have d0: "\<not> \<bar>1 / 2 :: real\<bar> < 1 / 10 ^ 10" by simp
  have d: "sinc (1 / 2) = sin (pi * (1 / 2)) / (pi * (1 / 2))" using t d0 by blast
  show ?thesis by (intro conjI) (rule a b3 b c0 c d0 d)+
qed

section \<open>Properties of the entropy estimate\<close>

subsection \<open>The histogram\<close>

lemma countBins_sum_length:
  "countBins bins counts = Some counts' \<Longrightarrow>
     sum_list counts' = sum_list counts + length bins \<and> length counts' = length counts"
proof (induction bins arbitrary: counts)
  case Nil
  then show ?case by simp
next
  case (Cons bin bins)
  from Cons.prems have inr: "0 \<le> bin" "nat bin < length counts"
    and rest: "countBins bins (counts[nat bin := counts ! nat bin + 1]) = Some counts'"
    by (auto split: if_splits)
  have "counts ! nat bin \<le> sum_list counts"
    using inr(2) by (simp add: member_le_sum_list)
  then have "sum_list (counts[nat bin := counts ! nat bin + 1]) = sum_list counts + 1"
    using inr(2) by (simp add: sum_list_update)
  with Cons.IH [OF rest] show ?case by simp
qed

lemma countBins_in_range:
  "\<forall>b \<in> set bins. 0 \<le> b \<and> nat b < length counts \<Longrightarrow>
     \<exists>counts'. countBins bins counts = Some counts'"
  by (induction bins arbitrary: counts) simp_all

lemma discretizeSignal_range:
  assumes "1 \<le> numBins" "b \<in> set (discretizeSignal signal numBins)"
  shows "0 \<le> b \<and> nat b < numBins"
  using assms by (auto simp: discretizeSignal_def Let_def)

lemma discretizeSignal_length: "length (discretizeSignal signal numBins) = length signal"
  by (simp add: discretizeSignal_def Let_def)

lemma histogram_total:
  assumes "1 \<le> numBins"
  shows "\<exists>counts. countBins (discretizeSignal signal numBins) (replicate numBins 0) = Some counts \<and>
           length counts = numBins \<and> sum_list counts = length signal"
proof -
  have "\<forall>b \<in> set (discretizeSignal signal numBins).
          0 \<le> b \<and> nat b < length (replicate numBins (0::nat))"
    using discretizeSignal_range [OF assms] by simp
  from countBins_in_range [OF this] obtain counts
    where c: "countBins (discretizeSignal signal numBins) (replicate numBins 0) = Some counts"
    by blast
  from countBins_sum_length [OF c] show ?thesis
    using c by (simp add: discretizeSignal_length)
qed


text \<open>
  C5: with at least one bin, every sample gets the bin index
  \<open>floor((v - lo) / binWidth)\<close> clamped into \<open>[0, numBins - 1]\<close>, where
  \<open>binWidth = (hi - lo) / numBins\<close> and \<open>[lo, hi] = [-2, 2]\<close>; every sample is
  counted in exactly one bin, so the counts sum to the signal length.
\<close>

theorem bin_index_clamped_counts_total:
  assumes "1 \<le> numBins"
  shows "discretizeSignal signal numBins =
           map (\<lambda>point. spec_binIndex (- 2) 2 numBins (val point)) signal \<and>
         (\<forall>b \<in> set (discretizeSignal signal numBins). 0 \<le> b \<and> b \<le> int numBins - 1) \<and>
         (\<exists>counts. countBins (discretizeSignal signal numBins) (replicate numBins 0) = Some counts \<and>
            length counts = numBins \<and> sum_list counts = length signal)"
proof (intro conjI)
  show "discretizeSignal signal numBins =
          map (\<lambda>point. spec_binIndex (- 2) 2 numBins (val point)) signal"
  proof -
    have clamp: "max 0 (min (int numBins - 1) i) =
        (if i < 0 then 0 else if i > int numBins - 1 then int numBins - 1 else i)" for i :: int
      using assms by auto
    show ?thesis
      unfolding discretizeSignal_def spec_binIndex_def Let_def clamp by simp
  qed
next
  show "\<forall>b \<in> set (discretizeSignal signal numBins). 0 \<le> b \<and> b \<le> int numBins - 1"
    using discretizeSignal_range [OF assms] by fastforce
next
  show "\<exists>counts. countBins (discretizeSignal signal numBins) (replicate numBins 0) = Some counts \<and>
            length counts = numBins \<and> sum_list counts = length signal"
    by (rule histogram_total [OF assms])
qed

text \<open>
  C5, instance: with 20 bins the samples 0, 5 and -3 land in bins 10, 19 and 0 (the
  last two clamped), and the three counts are all recorded.
\<close>

theorem bin_index_clamped_counts_total_witness:
  "(1::nat) \<le> 20 \<and>
   discretizeSignal outOfRangeSignal 20 = [10, 19, 0] \<and>
   map (\<lambda>point. spec_binIndex (- 2) 2 20 (val point)) outOfRangeSignal = [10, 19, 0] \<and>
   (\<exists>counts. countBins (discretizeSignal outOfRangeSignal 20) (replicate 20 0) = Some counts \<and>
      length counts = 20 \<and> sum_list counts = length outOfRangeSignal)"
proof -
  have one: "(1::nat) \<le> 20" by simp
  have d: "discretizeSignal outOfRangeSignal 20 = [10, 19, 0]"
    by (simp add: outOfRangeSignal_def discretizeSignal_def)
  note t = bin_index_clamped_counts_total [OF one, of outOfRangeSignal]
  from t have a: "discretizeSignal outOfRangeSignal 20 =
      map (\<lambda>point. spec_binIndex (- 2) 2 20 (val point)) outOfRangeSignal"
    by (rule conjunct1)
  from t have c: "\<exists>counts. countBins (discretizeSignal outOfRangeSignal 20) (replicate 20 0) = Some counts \<and>
      length counts = 20 \<and> sum_list counts = length outOfRangeSignal"
    by blast
  have a': "map (\<lambda>point. spec_binIndex (- 2) 2 20 (val point)) outOfRangeSignal = [10, 19, 0]"
    using a d by metis
  show ?thesis by (intro conjI) (rule one d a' c)+
qed

subsection \<open>The probabilities\<close>

lemma sum_list_normalise:
  "sum_list (map (\<lambda>count. real count / t) counts) = real (sum_list counts) / t"
  by (induction counts) (simp_all add: add_divide_distrib)

lemma calculateJointProbability_distribution:
  assumes "signal \<noteq> []" "1 \<le> numBins"
  shows "\<exists>ps. calculateJointProbability signal numBins = Some ps \<and> length ps = numBins \<and>
           sum_list ps = 1 \<and> (\<forall>p \<in> set ps. 0 \<le> p)"
proof -
  from histogram_total [OF assms(2), of signal] obtain counts
    where c: "countBins (discretizeSignal signal numBins) (replicate numBins 0) = Some counts"
      and l: "length counts = numBins" and s: "sum_list counts = length signal" by blast
  let ?ps = "map (\<lambda>count. real count / real (length signal)) counts"
  have "calculateJointProbability signal numBins = Some ?ps"
    using c assms(1) by (simp add: calculateJointProbability_def Let_def)
  moreover have "sum_list ?ps = 1"
    using assms(1) s by (simp add: sum_list_normalise)
  moreover have "\<forall>p \<in> set ?ps. 0 \<le> p" by auto
  ultimately show ?thesis using l by simp
qed

text \<open>
  C3: for every non-empty signal the analysis returns a result whose probabilities
  sum to 1 within \<open>1e-9\<close> and whose entropy is not negative.
\<close>

theorem probabilities_sum_to_one:
  "signal \<noteq> [] \<Longrightarrow>
     \<exists>r. calculateEntropy signal = Some r \<and>
         \<bar>sum_list (probabilities r) - 1\<bar> \<le> 1 / 10 ^ 9 \<and> 0 \<le> entropy r"
proof -
  assume ne: "signal \<noteq> []"
  from calculateJointProbability_distribution [OF ne, of 20] obtain ps
    where "calculateJointProbability signal 20 = Some ps" "sum_list ps = 1" by auto
  then show ?thesis using ne by (simp add: calculateEntropy_def Let_def)
qed

text \<open>C3, instance: the signal made of the three samples 0, 5 and -3.\<close>

theorem probabilities_sum_to_one_witness:
  "outOfRangeSignal \<noteq> [] \<and>
   (\<exists>r. calculateEntropy outOfRangeSignal = Some r \<and>
         \<bar>sum_list (probabilities r) - 1\<bar> \<le> 1 / 10 ^ 9 \<and> 0 \<le> entropy r)"
proof -
  have ne: "outOfRangeSignal \<noteq> []" by (simp add: outOfRangeSignal_def)
  from probabilities_sum_to_one [OF ne] ne show ?thesis by simp
qed

text \<open>
  C4: the empty signal yields entropy 0, no probabilities and no steps, as a normal
  return value.
\<close>

theorem calculateEntropy_empty:
  "calculateEntropy [] = Some \<lparr> entropy = 0, probabilities = [], stepByStep = [] \<rparr>"
  by (simp add: calculateEntropy_def)

subsection \<open>The entropy sum\<close>

lemma foldl_entropy:
  "foldl (\<lambda>e p. if p > 0 then e + (- p * log 2 p) else e) a ps =
     a + sum_list (map binContribution ps)"
  by (induction ps arbitrary: a) (simp_all add: binContribution_def)

lemma accumulateEntropy_sum: "accumulateEntropy ps = sum_list (map binContribution ps)"
  by (simp add: accumulateEntropy_def foldl_entropy)

text \<open>
  One bin against the uniform distribution on \<open>n\<close> bins, from \<open>ln x \<le> x - 1\<close> at
  \<open>x = 1 / (n p)\<close>.
\<close>

lemma binContribution_bound:
  assumes "0 \<le> p" "0 < n"
  shows "binContribution p \<le> p * log 2 n + (1 / n - p) / ln 2"
proof (cases "p > 0")
  case False
  with assms have "p = 0" by simp
  then show ?thesis using assms by (simp add: binContribution_def)
next
  case True
  have l2: "0 < ln (2::real)" by simp
  have "0 < 1 / (n * p)" using True assms by simp
  from ln_le_minus_one [OF this]
  have "ln (1 / (n * p)) \<le> 1 / (n * p) - 1" .
  then have "p * ln (1 / (n * p)) \<le> p * (1 / (n * p) - 1)"
    using True by (simp add: mult_left_mono)
  also have "\<dots> = 1 / n - p" using True assms by (simp add: field_simps)
  finally have a: "p * ln (1 / (n * p)) \<le> 1 / n - p" .
  have "ln (1 / (n * p)) = - ln n - ln p"
    using True assms by (simp add: ln_div ln_mult)
  with a have "- p * ln p - p * ln n \<le> 1 / n - p" by (simp add: algebra_simps)
  then have b: "(- p * ln p - p * ln n) / ln 2 \<le> (1 / n - p) / ln 2"
    using l2 by (simp add: divide_right_mono)
  have "binContribution p = (- p * ln p) / ln 2"
    using True by (simp add: binContribution_def log_def)
  moreover have "p * log 2 n = (p * ln n) / ln 2"
    by (simp add: log_def)
  ultimately have "binContribution p - p * log 2 n = (- p * ln p - p * ln n) / ln 2"
    by (simp add: diff_divide_distrib)
  with b show ?thesis by simp
qed

lemma entropy_sum_bound:
  assumes "\<forall>p \<in> set ps. 0 \<le> p" "0 < n"
  shows "sum_list (map binContribution ps)
           \<le> sum_list ps * log 2 n + (real (length ps) / n - sum_list ps) / ln 2"
  using assms(1)
proof (induction ps)
  case Nil
  then show ?case by simp
next
  case (Cons p ps)
  then have ih: "sum_list (map binContribution ps)
                   \<le> sum_list ps * log 2 n + (real (length ps) / n - sum_list ps) / ln 2"
    and p: "0 \<le> p" by simp_all
  from binContribution_bound [OF p assms(2)] ih
  show ?case by (simp add: algebra_simps add_divide_distrib diff_divide_distrib)
qed

lemma entropy_max:
  assumes "\<forall>p \<in> set ps. 0 \<le> p" "sum_list ps = 1" "ps \<noteq> []"
  shows "accumulateEntropy ps \<le> log 2 (real (length ps))"
proof -
  have "0 < real (length ps)" using assms(3) by simp
  from entropy_sum_bound [OF assms(1) this] show ?thesis
    using assms(2,3) by (simp add: accumulateEntropy_sum)
qed

text \<open>
  C10: for every signal, of any length, the analysis returns an entropy of at most
  \<open>log2(20)\<close>.
\<close>

theorem entropy_at_most_log2_bins:
  "\<exists>r. calculateEntropy signal = Some r \<and> entropy r \<le> log 2 20"
proof (cases "signal = []")
  case True
  then show ?thesis by (simp add: calculateEntropy_def)
next
  case False
  from calculateJointProbability_distribution [OF False, of 20] obtain ps
    where ps: "calculateJointProbability signal 20 = Some ps" "length ps = 20"
      "sum_list ps = 1" "\<forall>p \<in> set ps. 0 \<le> p" by auto
  from ps(2) have "ps \<noteq> []" by auto
  from entropy_max [OF ps(4) ps(3) this] ps(2)
  have "accumulateEntropy ps \<le> log 2 20" by simp
  moreover have "(0::real) \<le> log 2 20" by simp
  ultimately show ?thesis using ps(1) False by (simp add: calculateEntropy_def Let_def)
qed



end
